theory Spec2Isabelle
  imports Main "HOL-Library.Sublist" "HOL-Library.AList"
begin

section \<open>Python values, exceptions and text primitives\<close>

text \<open>
  The driver \<^verbatim>\<open>DNOS6Driver\<close> of \<^verbatim>\<open>napalm_dell/dell.py\<close> is embedded method by
  method, each under its own name without the leading underscore. A Python call
  either returns a value or raises; the model returns \<open>exn + 'a\<close> with \<open>Inl\<close> for the
  exception raised. Text is a list of characters, each a code point below 256.
  Dictionaries are association lists in insertion order.
\<close>

datatype exn =
    SocketError string
  | EOFError string
  | UnicodeDecodeError string
  | AttributeError string
  | NameError string
  | UnboundLocalError string
  | TypeError string
  | ValueError string
  | IndexError string
  | OverflowError string
  | AddrFormatError string
  | ConnectionClosedException string
  | OtherException string

text \<open>\<^verbatim>\<open>str(e)\<close>: the message an exception carries.\<close>

fun exn_str :: "exn \<Rightarrow> string" where
  "exn_str (SocketError m) = m"
| "exn_str (EOFError m) = m"
| "exn_str (UnicodeDecodeError m) = m"
| "exn_str (AttributeError m) = m"
| "exn_str (NameError m) = m"
| "exn_str (UnboundLocalError m) = m"
| "exn_str (TypeError m) = m"
| "exn_str (ValueError m) = m"
| "exn_str (IndexError m) = m"
| "exn_str (OverflowError m) = m"
| "exn_str (AddrFormatError m) = m"
| "exn_str (ConnectionClosedException m) = m"
| "exn_str (OtherException m) = m"

text \<open>A Python float is kept as the term it was converted from: \<open>Float_of_int n\<close> is
  \<^verbatim>\<open>float(n)\<close> (so \<^verbatim>\<open>-1.0\<close> is \<open>Float_of_int (-1)\<close>), \<open>Float_of_str s\<close> is
  \<^verbatim>\<open>float(s)\<close> for an accepted literal \<open>s\<close>.\<close>

datatype pyfloat = Float_of_int int | Float_of_str string

datatype pyval =
    PNone
  | PBool bool
  | PInt int
  | PFloat pyfloat
  | PStr string
  | PList "pyval list"
  | PDict "(pyval \<times> pyval) list"

text \<open>\<^verbatim>\<open>d[key]\<close> for a string key, \<open>None\<close> where Python raises KeyError.\<close>

fun item :: "pyval \<Rightarrow> string \<Rightarrow> pyval option" where
  "item (PDict kvs) k = map_of kvs (PStr k)"
| "item _ k = None"

text \<open>\<^verbatim>\<open>list(d)\<close>: the keys of a dictionary.\<close>

fun keys :: "pyval \<Rightarrow> pyval list" where
  "keys (PDict kvs) = map fst kvs"
| "keys _ = []"

abbreviation NL :: char where "NL \<equiv> CHR 0x0A"

text \<open>\<^verbatim>\<open>pat in s\<close> on strings.\<close>

fun contains :: "string \<Rightarrow> string \<Rightarrow> bool" where
  "contains pat [] = (pat = [])"
| "contains pat (c # cs) = (prefix pat (c # cs) \<or> contains pat cs)"

text \<open>Whitespace as \<^verbatim>\<open>str.split()\<close>, \<^verbatim>\<open>str.strip()\<close> and \<^verbatim>\<open>int()\<close> see it, for
  code points below 256.\<close>

definition py_isspace :: "char \<Rightarrow> bool" where
  "py_isspace c =
     ((of_char c :: nat) \<in> set [9, 10, 11, 12, 13, 28, 29, 30, 31, 32, 133, 160])"

text \<open>\<^verbatim>\<open>s.split()\<close>: the maximal runs of non-whitespace; \<open>cur\<close> is the run being read,
  reversed.\<close>

fun split_ws :: "string \<Rightarrow> string \<Rightarrow> string list" where
  "split_ws cur [] = (if cur = [] then [] else [rev cur])"
| "split_ws cur (c # cs) =
     (if py_isspace c then (if cur = [] then split_ws [] cs else rev cur # split_ws [] cs)
      else split_ws (c # cur) cs)"

definition py_split :: "string \<Rightarrow> string list" where
  "py_split s = split_ws [] s"

text \<open>\<^verbatim>\<open>s.split(sep)\<close> for a one-character separator.\<close>

fun split_on :: "char \<Rightarrow> string \<Rightarrow> string list" where
  "split_on sep [] = [[]]"
| "split_on sep (c # cs) =
     (if c = sep then [] # split_on sep cs
      else (case split_on sep cs of
              [] \<Rightarrow> [[c]]
            | l # ls \<Rightarrow> (c # l) # ls))"

text \<open>\<^verbatim>\<open>s.splitlines()\<close>: a line ends at \<^verbatim>\<open>\n\<close>, \<^verbatim>\<open>\r\<close>, \<^verbatim>\<open>\r\n\<close>, \<^verbatim>\<open>\v\<close>, \<^verbatim>\<open>\f\<close>,
  \<^verbatim>\<open>\x1c\<close>, \<^verbatim>\<open>\x1d\<close>, \<^verbatim>\<open>\x1e\<close> or \<^verbatim>\<open>\x85\<close>, and a final line break opens no
  further line.\<close>

definition is_linebreak :: "char \<Rightarrow> bool" where
  "is_linebreak c = ((of_char c :: nat) \<in> set [10, 11, 12, 13, 28, 29, 30, 133])"

fun splitlines_from :: "string \<Rightarrow> string \<Rightarrow> string list" where
  "splitlines_from cur [] = (if cur = [] then [] else [rev cur])"
| "splitlines_from cur (c # cs) =
     (if c = CHR 0x0D then
        (case cs of
           [] \<Rightarrow> [rev cur]
         | d # ds \<Rightarrow> if d = NL then rev cur # splitlines_from [] ds
                     else rev cur # splitlines_from [] cs)
      else if is_linebreak c then rev cur # splitlines_from [] cs
      else splitlines_from (c # cur) cs)"

definition splitlines :: "string \<Rightarrow> string list" where
  "splitlines s = splitlines_from [] s"

text \<open>\<^verbatim>\<open>s.strip()\<close>.\<close>

definition py_strip :: "string \<Rightarrow> string" where
  "py_strip s = rev (dropWhile py_isspace (rev (dropWhile py_isspace s)))"

text \<open>\<^verbatim>\<open>s.lower()\<close>: the letters A to Z and the upper-case letters of Latin-1
  (\<^verbatim>\<open>\xc0\<close> to \<^verbatim>\<open>\xde\<close> but the multiplication sign) move up by 32.\<close>

definition lower_char :: "char \<Rightarrow> char" where
  "lower_char c =
     (let n = (of_char c :: nat)
      in if (65 \<le> n \<and> n \<le> 90) \<or> (192 \<le> n \<and> n \<le> 222 \<and> n \<noteq> 215)
         then char_of (n + 32) else c)"

definition lower :: "string \<Rightarrow> string" where
  "lower s = map lower_char s"

text \<open>\<^verbatim>\<open>xs[i]\<close> for a non-negative literal index.\<close>

definition index :: "'a list \<Rightarrow> nat \<Rightarrow> exn + 'a" where
  "index xs i = (if i < length xs then Inr (xs ! i) else Inl (IndexError ''list index out of range''))"

text \<open>\<^verbatim>\<open>int(s)\<close> in base ten: surrounding whitespace is dropped, then an optional
  sign and one or more digits 0 to 9. (Digits outside ASCII and the digit-group
  underscores of later Python versions are not modelled: they are rejected here.)\<close>

definition is_digit :: "char \<Rightarrow> bool" where
  "is_digit c = (48 \<le> (of_char c :: nat) \<and> (of_char c :: nat) \<le> 57)"

definition digits_value :: "string \<Rightarrow> int" where
  "digits_value ds = foldl (\<lambda>a c. 10 * a + (int (of_char c) - 48)) 0 ds"

definition drop_sign :: "string \<Rightarrow> string" where
  "drop_sign s =
     (case s of [] \<Rightarrow> [] | c # r \<Rightarrow> if c = CHR ''+'' \<or> c = CHR ''-'' then r else s)"

definition py_int :: "string \<Rightarrow> exn + int" where
  "py_int s =
     (let t = py_strip s; ds = drop_sign t
      in if ds \<noteq> [] \<and> list_all is_digit ds
         then Inr (if take 1 t = ''-'' then - digits_value ds else digits_value ds)
         else Inl (ValueError s))"

text \<open>\<^verbatim>\<open>float(n)\<close> of an integer rounds to the nearest double and raises OverflowError
  from \<open>2^1024 - 2^970\<close> on, the first integer that rounds past the largest double.\<close>

definition py_float_of_int :: "int \<Rightarrow> exn + pyfloat" where
  "py_float_of_int n =
     (if \<bar>n\<bar> < 2 ^ 1024 - 2 ^ 970 then Inr (Float_of_int n)
      else Inl (OverflowError ''int too large to convert to float''))"

text \<open>\<^verbatim>\<open>float(s)\<close> of a string: surrounding whitespace is dropped, then an optional
  sign and either \<^verbatim>\<open>inf\<close>, \<^verbatim>\<open>infinity\<close>, \<^verbatim>\<open>nan\<close> in any case, or digits with an optional
  point and an optional exponent, at least one digit before or after the point (with
  the same limits on digits as for \<^verbatim>\<open>int\<close>).\<close>

definition exponent_ok :: "string \<Rightarrow> bool" where
  "exponent_ok r =
     (case r of
        [] \<Rightarrow> True
      | c # ds \<Rightarrow> (c = CHR ''e'' \<or> c = CHR ''E'')
                  \<and> drop_sign ds \<noteq> [] \<and> list_all is_digit (drop_sign ds))"

definition float_literal :: "string \<Rightarrow> bool" where
  "float_literal s =
     (let u = drop_sign s;
          ip = takeWhile is_digit u;
          r1 = dropWhile is_digit u;
          fp = (case r1 of [] \<Rightarrow> [] | c # r \<Rightarrow> if c = CHR ''.'' then takeWhile is_digit r else []);
          r2 = (case r1 of [] \<Rightarrow> [] | c # r \<Rightarrow> if c = CHR ''.'' then dropWhile is_digit r else r1)
      in lower u \<in> set [''inf'', ''infinity'', ''nan'']
         \<or> (\<not> (ip = [] \<and> fp = []) \<and> exponent_ok r2))"

definition py_float_of_str :: "string \<Rightarrow> exn + pyfloat" where
  "py_float_of_str s =
     (if float_literal (py_strip s) then Inr (Float_of_str (py_strip s))
      else Inl (ValueError s))"

section \<open>The three regular expressions of the driver\<close>

text \<open>
  \<^verbatim>\<open>re.split(r'^----.*', s, flags=re.M)\<close>: a match starts at the beginning of a line
  that begins with four dashes and runs to the end of that line (\<^verbatim>\<open>.\<close> stops at
  \<^verbatim>\<open>\n\<close> only). \<open>bol\<close> says that the position is the start of the text or follows a
  \<^verbatim>\<open>\n\<close>; \<open>piece\<close> is the text since the last match, reversed.
\<close>

function re_split_dashes :: "bool \<Rightarrow> string \<Rightarrow> string \<Rightarrow> string list" where
  "re_split_dashes bol piece [] = [rev piece]"
| "re_split_dashes bol piece (c # cs) =
     (if bol \<and> prefix ''----'' (c # cs)
      then rev piece # re_split_dashes False [] (dropWhile (\<lambda>x. x \<noteq> NL) (c # cs))
      else re_split_dashes (c = NL) (c # piece) cs)"
  by pat_completeness auto
termination
  by (relation "measure (\<lambda>(bol, piece, s). length s)")
     (auto simp: le_imp_less_Suc length_dropWhile_le)


text \<open>\<^verbatim>\<open>re.search(key + '(.+)', s)\<close> for a literal \<open>key\<close>: group 1 of the leftmost
  match, the rest of the line after \<open>key\<close>, which must not be empty.\<close>

fun re_search_rest :: "string \<Rightarrow> string \<Rightarrow> string option" where
  "re_search_rest key [] = None"
| "re_search_rest key (c # cs) =
     (if prefix key (c # cs) \<and> takeWhile (\<lambda>x. x \<noteq> NL) (drop (length key) (c # cs)) \<noteq> []
      then Some (takeWhile (\<lambda>x. x \<noteq> NL) (drop (length key) (c # cs)))
      else re_search_rest key cs)"

section \<open>The session and the command dispatcher\<close>

text \<open>
  The Netmiko connection behind \<^verbatim>\<open>self.device\<close> is not part of the repository; it is a
  parameter. \<open>send_reply\<close> is what \<^verbatim>\<open>send_command\<close> does given the commands sent before
  and the command sent now, \<open>write_reply\<close> is \<^verbatim>\<open>write_channel\<close>, and \<open>channel_active\<close> is
  \<^verbatim>\<open>remote_conn.transport.is_active()\<close>. Every function that talks to the device
  takes the list of commands sent so far and returns it extended. The driver's
  \<^verbatim>\<open>_send_command\<close> is \<open>send_command\<close> here, and the connection's own
  \<^verbatim>\<open>send_command\<close> is \<open>device_send_command\<close>.
\<close>

record conn =
  send_reply :: "string list \<Rightarrow> string \<Rightarrow> exn + string"
  write_reply :: "string \<Rightarrow> exn + unit"
  channel_active :: bool

record driver =
  transport :: string
  device :: "conn option"

text \<open>
  The names bound at module level of \<^verbatim>\<open>dell.py\<close>: its imports and the class. A name
  that is neither local to a function nor in this list (nor a builtin) raises NameError
  when it is evaluated.
\<close>

definition module_globals :: "string list" where
  "module_globals =
     [''print_function'', ''unicode_literals'', ''re'', ''socket'', ''collections'',
      ''ConnectHandler'', ''FileTransfer'', ''InLineTransfer'', ''NetworkDriver'',
      ''napalm'', ''C'', ''py23_compat'', ''cast_ip'', ''cast_mac'',
      ''canonical_interface_name'', ''ConnectionException'', ''DNOS6Driver'']"

definition global_name :: "string \<Rightarrow> exn + unit" where
  "global_name n = (if n \<in> set module_globals then Inr () else Inl (NameError n))"

text \<open>\<^verbatim>\<open>self.device.send_command(cmd)\<close>; on a driver that was never opened
  \<^verbatim>\<open>self.device\<close> is \<^verbatim>\<open>None\<close> and the attribute access raises.\<close>

definition device_send_command ::
  "driver \<Rightarrow> string list \<Rightarrow> string \<Rightarrow> (exn + string) \<times> string list" where
  "device_send_command drv sent cmd =
     (case device drv of
        None \<Rightarrow> (Inl (AttributeError ''send_command''), sent)
      | Some dev \<Rightarrow> (send_reply dev sent cmd, sent @ [cmd]))"

text \<open>The \<^verbatim>\<open>for cmd in command\<close> loop of \<^verbatim>\<open>_send_command\<close>; \<open>output\<close> is the local
  variable, \<open>None\<close> while it is unbound.\<close>

fun send_candidates ::
  "driver \<Rightarrow> string list \<Rightarrow> string option \<Rightarrow> string list
     \<Rightarrow> (exn + string option) \<times> string list" where
  "send_candidates drv sent output [] = (Inr output, sent)"
| "send_candidates drv sent output (cmd # cmds) =
     (case device_send_command drv sent cmd of
        (Inl e, sent') \<Rightarrow> (Inl e, sent')
      | (Inr out, sent') \<Rightarrow>
          if \<not> contains ''% Invalid'' out then (Inr (Some out), sent')
          else send_candidates drv sent' (Some out) cmds)"

text \<open>\<^verbatim>\<open>_send_command\<close> takes a string or a list of strings.\<close>

datatype command = Single string | Candidates "string list"

text \<open>The handler \<^verbatim>\<open>except (socket.error, EOFError) as e: raise
  ConnectionClosedException(str(e))\<close>: it evaluates the name \<^verbatim>\<open>ConnectionClosedException\<close>
  first.\<close>

definition connection_closed_handler :: "exn \<Rightarrow> exn" where
  "connection_closed_handler e =
     (case e of
        SocketError m \<Rightarrow>
          (case global_name ''ConnectionClosedException'' of
             Inl ne \<Rightarrow> ne | Inr _ \<Rightarrow> ConnectionClosedException (exn_str e))
      | EOFError m \<Rightarrow>
          (case global_name ''ConnectionClosedException'' of
             Inl ne \<Rightarrow> ne | Inr _ \<Rightarrow> ConnectionClosedException (exn_str e))
      | _ \<Rightarrow> e)"

definition send_command ::
  "driver \<Rightarrow> string list \<Rightarrow> command \<Rightarrow> (exn + string) \<times> string list" where
  "send_command drv sent command =
     (case (case command of
              Candidates cmds \<Rightarrow>
                (case send_candidates drv sent None cmds of
                   (Inl e, sent') \<Rightarrow> (Inl e, sent')
                 | (Inr None, sent') \<Rightarrow> (Inl (UnboundLocalError ''output''), sent')
                 | (Inr (Some out), sent') \<Rightarrow> (Inr out, sent'))
            | Single cmd \<Rightarrow> device_send_command drv sent cmd) of
        (Inl e, sent') \<Rightarrow> (Inl (connection_closed_handler e), sent')
      | (Inr out, sent') \<Rightarrow> (Inr out, sent'))"

section \<open>Liveness\<close>

definition alive :: "bool \<Rightarrow> pyval" where
  "alive b = PDict [(PStr ''is_alive'', PBool b)]"

text \<open>\<^verbatim>\<open>is_alive\<close>. The Telnet branch evaluates \<^verbatim>\<open>telnetlib.IAC + telnetlib.NOP\<close>
  (the bytes 255 and 241) inside its \<^verbatim>\<open>try\<close>, before it writes; its handlers take
  UnicodeDecodeError and AttributeError only.\<close>

definition is_alive :: "driver \<Rightarrow> exn + pyval" where
  "is_alive drv =
     (case device drv of
        None \<Rightarrow> Inr (alive False)
      | Some dev \<Rightarrow>
          if transport drv = ''telnet'' then
            (case (case global_name ''telnetlib'' of
                     Inl e \<Rightarrow> Inl e
                   | Inr _ \<Rightarrow> write_reply dev [CHR 0xFF, CHR 0xF1]) of
               Inr _ \<Rightarrow> Inr (alive True)
             | Inl (UnicodeDecodeError m) \<Rightarrow> Inr (alive True)
             | Inl (AttributeError m) \<Rightarrow> Inr (alive False)
             | Inl e \<Rightarrow> Inl e)
          else
            (case write_reply dev [CHR 0x00] of
               Inr _ \<Rightarrow> Inr (alive (channel_active dev))
             | Inl (SocketError m) \<Rightarrow> Inr (alive False)
             | Inl (EOFError m) \<Rightarrow> Inr (alive False)
             | Inl e \<Rightarrow> Inl e))"

section \<open>Configuration\<close>

text \<open>\<^verbatim>\<open>d[key] = value\<close> on a dictionary.\<close>

fun setitem :: "pyval \<Rightarrow> string \<Rightarrow> pyval \<Rightarrow> pyval" where
  "setitem (PDict kvs) k v = PDict (AList.update (PStr k) v kvs)"
| "setitem d k v = d"

definition get_config ::
  "driver \<Rightarrow> string list \<Rightarrow> string \<Rightarrow> (exn + pyval) \<times> string list" where
  "get_config drv sent retrieve =
     (let configs = PDict [(PStr ''startup'', PStr []), (PStr ''running'', PStr []),
                           (PStr ''candidate'', PStr [])]
      in case (if retrieve \<in> set [''startup'', ''all''] then
                 (case send_command drv sent (Single ''show startup-config'') of
                    (Inl e, sent1) \<Rightarrow> (Inl e, sent1)
                  | (Inr output, sent1) \<Rightarrow>
                      (Inr (setitem configs ''startup'' (PStr output)), sent1))
               else (Inr configs, sent)) of
           (Inl e, sent1) \<Rightarrow> (Inl e, sent1)
         | (Inr configs1, sent1) \<Rightarrow>
             if retrieve \<in> set [''running'', ''all''] then
               (case send_command drv sent1 (Single ''show running-config'') of
                  (Inl e, sent2) \<Rightarrow> (Inl e, sent2)
                | (Inr output, sent2) \<Rightarrow>
                    (Inr (setitem configs1 ''running'' (PStr output)), sent2))
             else (Inr configs1, sent1))"

section \<open>Environment\<close>

text \<open>
  The local variables the scan of \<^verbatim>\<open>show proc cpu\<close> writes: the CPU usage stored
  under \<^verbatim>\<open>environment['cpu'][0]['%usage']\<close>, and \<^verbatim>\<open>used_mem\<close> and \<^verbatim>\<open>avail_mem\<close>,
  \<open>None\<close> while unbound.
\<close>

record scan =
  usage :: pyfloat
  used_mem :: "int option"
  avail_mem :: "int option"

text \<open>\<^verbatim>\<open>float(line.split()[4][:-1])\<close> and \<^verbatim>\<open>int(line.split()[1])\<close>.\<close>

definition cpu_field :: "string \<Rightarrow> exn + pyfloat" where
  "cpu_field line =
     (case index (py_split line) 4 of
        Inl e \<Rightarrow> Inl e
      | Inr tok \<Rightarrow> py_float_of_str (butlast tok))"

definition int_field :: "string \<Rightarrow> exn + int" where
  "int_field line =
     (case index (py_split line) 1 of
        Inl e \<Rightarrow> Inl e
      | Inr tok \<Rightarrow> py_int tok)"

text \<open>The loop \<^verbatim>\<open>for line in output.splitlines()\<close> with its \<^verbatim>\<open>break\<close>.\<close>

fun scan_lines :: "string list \<Rightarrow> scan \<Rightarrow> exn + scan" where
  "scan_lines [] st = Inr st"
| "scan_lines (line # rest) st =
     (if contains ''Total CPU Utilization'' line then
        (case cpu_field line of
           Inl e \<Rightarrow> Inl e
         | Inr oneminute \<Rightarrow> Inr (st\<lparr>usage := oneminute\<rparr>))
      else
        (case (if contains ''alloc'' line then
                 (case int_field line of
                    Inl e \<Rightarrow> Inl e
                  | Inr n \<Rightarrow> Inr (st\<lparr>used_mem := Some n\<rparr>))
               else Inr st) of
           Inl e \<Rightarrow> Inl e
         | Inr st1 \<Rightarrow>
             (case (if contains ''free'' line then
                      (case int_field line of
                         Inl e \<Rightarrow> Inl e
                       | Inr n \<Rightarrow> Inr (st1\<lparr>avail_mem := Some n\<rparr>))
                    else Inr st1) of
                Inl e \<Rightarrow> Inl e
              | Inr st2 \<Rightarrow> scan_lines rest st2)))"

text \<open>The dictionary \<^verbatim>\<open>get_environment\<close> returns, from the values it was filled with.\<close>

definition environment :: "pyfloat \<Rightarrow> int \<Rightarrow> int \<Rightarrow> pyval" where
  "environment cpu_usage used available =
     PDict
       [(PStr ''cpu'', PDict [(PInt 0, PDict [(PStr ''%usage'', PFloat cpu_usage)])]),
        (PStr ''memory'',
           PDict [(PStr ''used_ram'', PInt used), (PStr ''available_ram'', PInt available)]),
        (PStr ''temperature'',
           PDict [(PStr ''invalid'',
                     PDict [(PStr ''is_alert'', PBool False), (PStr ''is_critical'', PBool False),
                            (PStr ''temperature'', PFloat (Float_of_int (- 1)))])]),
        (PStr ''power'',
           PDict [(PStr ''invalid'',
                     PDict [(PStr ''status'', PBool True),
                            (PStr ''output'', PFloat (Float_of_int (- 1))),
                            (PStr ''capacity'', PFloat (Float_of_int (- 1)))])]),
        (PStr ''fans'', PDict [(PStr ''invalid'', PDict [(PStr ''status'', PBool True)])])]"

text \<open>\<^verbatim>\<open>get_environment\<close>: the CPU command, the scan, the memory record (reading
  \<^verbatim>\<open>used_mem\<close>, then \<^verbatim>\<open>avail_mem\<close>), the temperature command whose output is not
  used, and the placeholders. The dictionary is written in place by the source and is
  lost when an exception leaves the method; the model builds it at the end.\<close>

definition get_environment ::
  "driver \<Rightarrow> string list \<Rightarrow> (exn + pyval) \<times> string list" where
  "get_environment drv sent =
     (case send_command drv sent (Single ''show proc cpu'') of
        (Inl e, sent1) \<Rightarrow> (Inl e, sent1)
      | (Inr output, sent1) \<Rightarrow>
          (case scan_lines (splitlines output)
                  \<lparr>usage = Float_of_int 0, used_mem = None, avail_mem = None\<rparr> of
             Inl e \<Rightarrow> (Inl e, sent1)
           | Inr st \<Rightarrow>
               (case used_mem st of
                  None \<Rightarrow> (Inl (UnboundLocalError ''used_mem''), sent1)
                | Some used \<Rightarrow>
                    (case avail_mem st of
                       None \<Rightarrow> (Inl (UnboundLocalError ''avail_mem''), sent1)
                     | Some avail \<Rightarrow>
                         (case send_command drv sent1 (Single ''show system temperature'') of
                            (Inl e, sent2) \<Rightarrow> (Inl e, sent2)
                          | (Inr temp_output, sent2) \<Rightarrow>
                              (Inr (environment (usage st) used (used + avail)), sent2))))))"

section \<open>MAC and ARP tables\<close>

text \<open>
  Two helpers come from the NAPALM base library, not from this repository, and are
  parameters: \<^verbatim>\<open>napalm.base.helpers.mac\<close>, which canonicalises a MAC address or raises,
  and \<^verbatim>\<open>self._canonical_int\<close>, which expands an interface name or passes it through.
\<close>

record napalm_base =
  helpers_mac :: "string \<Rightarrow> exn + string"
  canonical_int :: "string \<Rightarrow> string"

text \<open>\<^verbatim>\<open>_process_mac_fields(vlan, mac, mac_type, interface)\<close>; the dictionary display
  evaluates its values in order: the MAC address, the interface, \<^verbatim>\<open>int(vlan)\<close>.\<close>

definition process_mac_fields ::
  "napalm_base \<Rightarrow> string \<Rightarrow> string \<Rightarrow> string \<Rightarrow> string \<Rightarrow> exn + pyval" where
  "process_mac_fields nb vlan mac mac_type interface =
     (let static = (if lower mac_type \<in> set [''management'', ''static''] then True else False);
          active = (if lower mac_type \<in> set [''dynamic''] then True else False)
      in case helpers_mac nb mac of
           Inl e \<Rightarrow> Inl e
         | Inr mac_c \<Rightarrow>
             (case py_int vlan of
                Inl e \<Rightarrow> Inl e
              | Inr vlan_i \<Rightarrow>
                  Inr (PDict [(PStr ''mac'', PStr mac_c),
                              (PStr ''interface'', PStr (canonical_int nb interface)),
                              (PStr ''vlan'', PInt vlan_i),
                              (PStr ''static'', PBool static),
                              (PStr ''active'', PBool active),
                              (PStr ''moves'', PInt (- 1)),
                              (PStr ''last_move'', PFloat (Float_of_int (- 1)))])))"

text \<open>\<^verbatim>\<open>_process_mac_fields(*i.split())\<close>: the call needs exactly four arguments.\<close>

definition process_mac_row :: "napalm_base \<Rightarrow> string \<Rightarrow> exn + pyval" where
  "process_mac_row nb i =
     (case py_split i of
        [vlan, mac, mac_type, interface] \<Rightarrow> process_mac_fields nb vlan mac mac_type interface
      | _ \<Rightarrow> Inl (TypeError ''_process_mac_fields()''))"

text \<open>The comprehension \<^verbatim>\<open>[entries.append(f(*i.split())) for i in lines if i != '']\<close>:
  the rows in order, left at the first exception.\<close>

fun process_rows :: "(string \<Rightarrow> exn + pyval) \<Rightarrow> string list \<Rightarrow> exn + pyval list" where
  "process_rows f [] = Inr []"
| "process_rows f (i # lines) =
     (if i \<noteq> [] then
        (case f i of
           Inl e \<Rightarrow> Inl e
         | Inr entry \<Rightarrow>
             (case process_rows f lines of
                Inl e \<Rightarrow> Inl e
              | Inr entries \<Rightarrow> Inr (entry # entries)))
      else process_rows f lines)"


text \<open>\<^verbatim>\<open>_process_arp_fields(ip, mac, interface, mac_type, h, m='', s='')\<close>.\<close>

definition process_arp_fields ::
  "napalm_base \<Rightarrow> string \<Rightarrow> string \<Rightarrow> string \<Rightarrow> string \<Rightarrow> string \<Rightarrow> string \<Rightarrow> string
     \<Rightarrow> exn + pyval" where
  "process_arp_fields nb ip mac interface mac_type h m s =
     (case (if h = ''n/a'' then Inr (- 1)
            else (case py_int (butlast h) of
                    Inl e \<Rightarrow> Inl e
                  | Inr h_i \<Rightarrow>
                      (case py_int (butlast m) of
                         Inl e \<Rightarrow> Inl e
                       | Inr m_i \<Rightarrow>
                           (case py_int (butlast s) of
                              Inl e \<Rightarrow> Inl e
                            | Inr s_i \<Rightarrow> Inr (h_i * 3600 + m_i * 60 + s_i))))) of
        Inl e \<Rightarrow> Inl e
      | Inr age \<Rightarrow>
          (case helpers_mac nb mac of
             Inl e \<Rightarrow> Inl e
           | Inr mac_c \<Rightarrow>
               (case py_float_of_int age of
                  Inl e \<Rightarrow> Inl e
                | Inr age_f \<Rightarrow>
                    Inr (PDict [(PStr ''interface'', PStr (canonical_int nb interface)),
                                (PStr ''mac'', PStr mac_c),
                                (PStr ''ip'', PStr ip),
                                (PStr ''age'', PFloat age_f)]))))"

text \<open>\<^verbatim>\<open>_process_arp_fields(*i.split())\<close>: five to seven arguments.\<close>

definition process_arp_row :: "napalm_base \<Rightarrow> string \<Rightarrow> exn + pyval" where
  "process_arp_row nb i =
     (case py_split i of
        [ip, mac, interface, mac_type, h] \<Rightarrow>
          process_arp_fields nb ip mac interface mac_type h [] []
      | [ip, mac, interface, mac_type, h, m] \<Rightarrow>
          process_arp_fields nb ip mac interface mac_type h m []
      | [ip, mac, interface, mac_type, h, m, s] \<Rightarrow>
          process_arp_fields nb ip mac interface mac_type h m s
      | _ \<Rightarrow> Inl (TypeError ''_process_arp_fields()''))"

definition get_arp_table ::
  "napalm_base \<Rightarrow> driver \<Rightarrow> string list \<Rightarrow> (exn + pyval list) \<times> string list" where
  "get_arp_table nb drv sent =
     (case send_command drv sent (Single ''show arp'') of
        (Inl e, sent1) \<Rightarrow> (Inl e, sent1)
      | (Inr output, sent1) \<Rightarrow>
          (case index (re_split_dashes True [] output) 1 of
             Inl e \<Rightarrow> (Inl e, sent1)
           | Inr seg \<Rightarrow> (process_rows (process_arp_row nb) (split_on NL seg), sent1)))"

section \<open>LLDP\<close>

text \<open>\<^verbatim>\<open>result[iface].append(entry)\<close> on the \<^verbatim>\<open>defaultdict(list)\<close>, keys in
  insertion order.\<close>

fun dict_append :: "(string \<times> pyval list) list \<Rightarrow> string \<Rightarrow> pyval \<Rightarrow> (string \<times> pyval list) list" where
  "dict_append [] k v = [(k, [v])]"
| "dict_append ((k', vs) # kvs) k v =
     (if k' = k then (k', vs @ [v]) # kvs else (k', vs) # dict_append kvs k v)"

fun lldp_lines :: "string list \<Rightarrow> (string \<times> pyval list) list \<Rightarrow> (string \<times> pyval list) list" where
  "lldp_lines [] result = result"
| "lldp_lines (line # lines) result =
     (if line = [] then lldp_lines lines result
      else
        (let iface = py_strip (take 10 line);
             portid = take 17 (drop 38 line);
             systemname = py_strip (drop 57 line)
         in lldp_lines lines
              (dict_append result iface
                 (PDict [(PStr ''hostname'', if systemname = [] then PNone else PStr systemname),
                         (PStr ''port'', PStr portid)]))))"

definition get_lldp_neighbors ::
  "driver \<Rightarrow> string list \<Rightarrow> (exn + (string \<times> pyval list) list) \<times> string list" where
  "get_lldp_neighbors drv sent =
     (case send_command drv sent (Single ''show lldp remote-device all'') of
        (Inl e, sent1) \<Rightarrow> (Inl e, sent1)
      | (Inr output, sent1) \<Rightarrow>
          (case index (re_split_dashes True [] output) 1 of
             Inl e \<Rightarrow> (Inl e, sent1)
           | Inr seg \<Rightarrow> (Inr (lldp_lines (split_on NL seg) []), sent1)))"

text \<open>
  \<^verbatim>\<open>_get_lldp_neighbor_detail_iface\<close>. A missing chassis id makes \<^verbatim>\<open>re.search\<close>
  return \<^verbatim>\<open>None\<close>, whose \<^verbatim>\<open>.group\<close> raises; the four searches under \<^verbatim>\<open>try\<close> default
  to the empty string. The method then evaluates \<^verbatim>\<open>caps_maps[cap]\<close> for the first
  element of \<^verbatim>\<open>caps_supported_output.split(', ')\<close>, a list that is never empty; the
  local dictionary is named \<^verbatim>\<open>caps_map\<close>, so \<^verbatim>\<open>caps_maps\<close> is looked up at module
  level. Were it bound, the next statement would index the list \<^verbatim>\<open>caps_enabled\<close>
  by a string.
\<close>

definition optional_field :: "string \<Rightarrow> string \<Rightarrow> string" where
  "optional_field key output = (case re_search_rest key output of None \<Rightarrow> [] | Some v \<Rightarrow> v)"

definition get_lldp_neighbor_detail_iface ::
  "driver \<Rightarrow> string list \<Rightarrow> string \<Rightarrow> (exn + pyval) \<times> string list" where
  "get_lldp_neighbor_detail_iface drv sent interface =
     (case send_command drv sent (Single (''show lldp remote-device detail '' @ interface)) of
        (Inl e, sent1) \<Rightarrow> (Inl e, sent1)
      | (Inr output, sent1) \<Rightarrow>
          (case re_search_rest ''Chassis ID: '' output of
             None \<Rightarrow> (Inl (AttributeError ''group''), sent1)
           | Some chassis_id \<Rightarrow>
               (let system_name = optional_field ''System Name: '' output;
                    port_description = optional_field ''Port Description: '' output;
                    caps_supported_output =
                      optional_field ''System Capabilities Supported: '' output;
                    caps_enabled_output =
                      optional_field ''System Capabilities Enabled: '' output
                in case global_name ''caps_maps'' of
                     Inl e \<Rightarrow> (Inl e, sent1)
                   | Inr _ \<Rightarrow> (Inl (TypeError ''list indices must be integers''), sent1))))"

text \<open>The loop of \<^verbatim>\<open>get_lldp_neighbor_detail\<close> over the interfaces that have
  neighbours.\<close>

fun detail_loop ::
  "driver \<Rightarrow> string list \<Rightarrow> string list \<Rightarrow> pyval list \<Rightarrow> (exn + pyval list) \<times> string list" where
  "detail_loop drv sent [] ifaces = (Inr ifaces, sent)"
| "detail_loop drv sent (iface # rest) ifaces =
     (case get_lldp_neighbor_detail_iface drv sent iface of
        (Inl e, sent1) \<Rightarrow> (Inl e, sent1)
      | (Inr d, sent1) \<Rightarrow> detail_loop drv sent1 rest (ifaces @ [d]))"

text \<open>
  \<^verbatim>\<open>get_lldp_neighbor_detail(interface='')\<close>. With an interface given the method
  runs \<^verbatim>\<open>return _get_lldp_neighbor_detail_iface(iface)\<close>: the callee is a bare name,
  not an attribute of \<^verbatim>\<open>self\<close>, and is evaluated before the argument \<^verbatim>\<open>iface\<close>, the
  loop variable of the other branch.
\<close>

definition get_lldp_neighbor_detail ::
  "driver \<Rightarrow> string list \<Rightarrow> string \<Rightarrow> (exn + pyval) \<times> string list" where
  "get_lldp_neighbor_detail drv sent interface =
     (if interface = [] then
        (case get_lldp_neighbors drv sent of
           (Inl e, sent1) \<Rightarrow> (Inl e, sent1)
         | (Inr neighs, sent1) \<Rightarrow>
             (case detail_loop drv sent1 (map fst neighs) [] of
                (Inl e, sent2) \<Rightarrow> (Inl e, sent2)
              | (Inr ifaces, sent2) \<Rightarrow> (Inr (PList ifaces), sent2)))
      else
        (case global_name ''_get_lldp_neighbor_detail_iface'' of
           Inl e \<Rightarrow> (Inl e, sent)
         | Inr _ \<Rightarrow> (Inl (UnboundLocalError ''iface''), sent)))"

section \<open>Sessions, helpers and device output used as concrete inputs\<close>

text \<open>A connection that answers from a fixed table of commands and loses the
  connection on any other command, and a driver opened on it.\<close>

definition scripted :: "(string \<times> string) list \<Rightarrow> conn" where
  "scripted script =
     \<lparr>send_reply = (\<lambda>sent cmd. case map_of script cmd of
                                   Some out \<Rightarrow> Inr out
                                 | None \<Rightarrow> Inl (SocketError ''timed out'')),
      write_reply = (\<lambda>s. Inr ()),
      channel_active = True\<rparr>"

definition session :: "string \<Rightarrow> (string \<times> string) list \<Rightarrow> driver" where
  "session tr script = \<lparr>transport = tr, device = Some (scripted script)\<rparr>"

text \<open>The base library with canonical interface names switched off and a MAC helper
  that accepts every address as it is.\<close>

definition plain_base :: napalm_base where
  "plain_base = \<lparr>helpers_mac = Inr, canonical_int = (\<lambda>i. i)\<rparr>"

definition variants :: "(string \<times> string) list" where
  "variants = [(''show mac-address-table'', ''% Invalid input detected''),
               (''show mac address-table'', ''Aging time is 300 Sec''),
               (''show bridge address-table'', ''% Invalid input detected'')]"

definition saved :: "(string \<times> string) list" where
  "saved = [(''show startup-config'', ''hostname old''),
            (''show running-config'', ''hostname sw1'')]"

definition cpu_report :: string where
  "cpu_report = ''status      bytes'' @ [NL] @ ''------ ----------'' @ [NL]
       @ ''  free        500'' @ [NL] @ '' alloc       1000'' @ [NL, NL]
       @ ''Total CPU Utilization   9.26%  9.75% 9.72%'' @ [NL]"

definition cpu_report_cpu_first :: string where
  "cpu_report_cpu_first = ''Total CPU Utilization   9.26%  9.75% 9.72%'' @ [NL]
       @ '' alloc       1000'' @ [NL] @ ''  free        500'' @ [NL]"

definition cpu_report_no_free :: string where
  "cpu_report_no_free = '' alloc       1000'' @ [NL]
       @ ''Total CPU Utilization   9.26%  9.75% 9.72%'' @ [NL]"

definition env_script :: "string \<Rightarrow> (string \<times> string) list" where
  "env_script report = [(''show proc cpu'', report), (''show system temperature'', [])]"


definition mac_entry :: "string \<Rightarrow> string \<Rightarrow> int \<Rightarrow> bool \<Rightarrow> bool \<Rightarrow> pyval" where
  "mac_entry mac interface vlan static active =
     PDict [(PStr ''mac'', PStr mac), (PStr ''interface'', PStr interface),
            (PStr ''vlan'', PInt vlan), (PStr ''static'', PBool static),
            (PStr ''active'', PBool active), (PStr ''moves'', PInt (- 1)),
            (PStr ''last_move'', PFloat (Float_of_int (- 1)))]"

text \<open>The lines of the CPU report that the scan reads: those before the first line
  holding \<^verbatim>\<open>Total CPU Utilization\<close>.\<close>

definition cpu_line :: "string \<Rightarrow> bool" where
  "cpu_line l = contains ''Total CPU Utilization'' l"

definition scanned :: "string \<Rightarrow> string list" where
  "scanned outp = takeWhile (\<lambda>l. \<not> cpu_line l) (splitlines outp)"













section \<open>Properties of the command dispatcher\<close>

lemma send_command_single:
  "device drv = Some dev \<Longrightarrow> send_reply dev sent cmd = Inr out
     \<Longrightarrow> send_command drv sent (Single cmd) = (Inr out, sent @ [cmd])"
  by (simp add: send_command_def device_send_command_def)

lemma send_candidates_stop:
  assumes "device drv = Some dev"
    and "\<forall>i<length pre. \<exists>out. send_reply dev (sent @ take i pre) (pre ! i) = Inr out
           \<and> contains ''% Invalid'' out"
    and "send_reply dev (sent @ pre) c = Inr out"
    and "\<not> contains ''% Invalid'' out \<or> post = []"
  shows "send_candidates drv sent cur (pre @ c # post) = (Inr (Some out), sent @ pre @ [c])"
  using assms(2,3)
proof (induction pre arbitrary: sent cur)
  case Nil
  then show ?case using assms(1,4) by (auto simp: device_send_command_def)
next
  case (Cons p ps)
  from Cons.prems(1) obtain o1
    where o1: "send_reply dev sent p = Inr o1" "contains ''% Invalid'' o1"
    by fastforce
  have rest: "\<forall>i<length ps. \<exists>out. send_reply dev ((sent @ [p]) @ take i ps) (ps ! i) = Inr out
           \<and> contains ''% Invalid'' out"
  proof (intro allI impI)
    fix i assume "i < length ps"
    then have "Suc i < length (p # ps)" by simp
    from Cons.prems(1)[rule_format, OF this]
    show "\<exists>out. send_reply dev ((sent @ [p]) @ take i ps) (ps ! i) = Inr out
           \<and> contains ''% Invalid'' out" by simp
  qed
  have final: "send_reply dev ((sent @ [p]) @ ps) c = Inr out" using Cons.prems(2) by simp
  have "send_candidates drv (sent @ [p]) (Some o1) (ps @ c # post)
          = (Inr (Some out), (sent @ [p]) @ ps @ [c])"
    by (rule Cons.IH[OF rest final])
  then show ?case using o1 assms(1) by (simp add: device_send_command_def)
qed

text \<open>
  Claim C1, as amended. On an open session, for a list of candidates that is not empty
  (\<open>pre @ c # post\<close>): when every candidate of \<open>pre\<close> is answered with text holding the
  marker \<^verbatim>\<open>% Invalid\<close>, and \<open>c\<close> is answered with \<open>out\<close>, and either \<open>out\<close> does not
  hold the marker or \<open>c\<close> is the last candidate, then \<^verbatim>\<open>_send_command\<close> returns \<open>out\<close>
  and has sent exactly \<open>pre\<close> and \<open>c\<close>, in that order, and nothing of \<open>post\<close>.
\<close>

theorem send_command_candidates:
  assumes "device drv = Some dev"
    and "\<forall>i<length pre. \<exists>out. send_reply dev (sent @ take i pre) (pre ! i) = Inr out
           \<and> contains ''% Invalid'' out"
    and "send_reply dev (sent @ pre) c = Inr out"
    and "\<not> contains ''% Invalid'' out \<or> post = []"
  shows "send_command drv sent (Candidates (pre @ c # post)) = (Inr out, sent @ pre @ [c])"
  by (simp add: send_command_def send_candidates_stop[OF assms])

text \<open>Witness for C1: the second of three variants is the first valid one and the third
  is never sent; of two invalid variants the answer to the last is returned.\<close>

theorem send_command_candidates_witness:
  "send_command (session ''ssh'' variants) []
      (Candidates [''show mac-address-table'', ''show mac address-table'',
                   ''show bridge address-table''])
     = (Inr ''Aging time is 300 Sec'', [''show mac-address-table'', ''show mac address-table''])
   \<and> send_command (session ''ssh'' variants) []
      (Candidates [''show mac-address-table'', ''show bridge address-table''])
     = (Inr ''% Invalid input detected'',
        [''show mac-address-table'', ''show bridge address-table''])"
proof -
  have d: "device (session ''ssh'' variants) = Some (scripted variants)"
    by (simp add: session_def)
  have a: "send_command (session ''ssh'' variants) []
      (Candidates ([''show mac-address-table''] @ ''show mac address-table''
                     # [''show bridge address-table'']))
     = (Inr ''Aging time is 300 Sec'',
        [] @ [''show mac-address-table''] @ [''show mac address-table''])"
    by (rule send_command_candidates[OF d]) (simp_all add: scripted_def variants_def)
  have b: "send_command (session ''ssh'' variants) []
      (Candidates ([''show mac-address-table''] @ ''show bridge address-table'' # []))
     = (Inr ''% Invalid input detected'',
        [] @ [''show mac-address-table''] @ [''show bridge address-table''])"
    by (rule send_command_candidates[OF d]) (simp_all add: scripted_def variants_def)
  from a b show ?thesis by simp
qed

text \<open>Counterexample to C1 as stated: for the empty list of candidates nothing is sent
  and \<^verbatim>\<open>return output\<close> reads a variable that was never bound.\<close>

theorem send_command_empty_candidates:
  "send_command (session ''ssh'' variants) [] (Candidates [])
     = (Inl (UnboundLocalError ''output''), [])"
  by (simp add: send_command_def connection_closed_handler_def)

text \<open>A send that fails with a socket error or an end of stream reaches the handler,
  which raises NameError: the module does not bind \<^verbatim>\<open>ConnectionClosedException\<close>.\<close>

lemma send_command_transport_failure:
  assumes "device drv = Some dev"
    and "send_reply dev sent cmd = Inl e"
    and "e = SocketError m \<or> e = EOFError m"
  shows "send_command drv sent (Single cmd)
           = (Inl (NameError ''ConnectionClosedException''), sent @ [cmd])"
  using assms
  by (auto simp: send_command_def device_send_command_def connection_closed_handler_def
        global_name_def module_globals_def)

text \<open>
  Claim C5 at a failing input: the session times out on \<^verbatim>\<open>show arp\<close>. The caller sees
  NameError, neither the connection-closed error of the claim nor the socket error.
\<close>

theorem send_command_lost_connection:
  "send_command (session ''ssh'' []) [] (Single ''show arp'')
     = (Inl (NameError ''ConnectionClosedException''), [''show arp''])"
  by (simp add: send_command_transport_failure[where m = "''timed out''"]
        session_def scripted_def)

section \<open>Properties of the liveness probe\<close>

lemma is_alive_before_open: "device drv = None \<Longrightarrow> is_alive drv = Inr (alive False)"
  by (simp add: is_alive_def)

lemma is_alive_telnet:
  "device drv = Some dev \<Longrightarrow> transport drv = ''telnet''
     \<Longrightarrow> is_alive drv = Inl (NameError ''telnetlib'')"
  by (simp add: is_alive_def global_name_def module_globals_def)

lemma is_alive_ssh:
  assumes "device drv = Some dev" and "transport drv \<noteq> ''telnet''"
  shows "(write_reply dev [CHR 0x00] = Inr () \<longrightarrow>
            is_alive drv = Inr (alive (channel_active dev)))
       \<and> (write_reply dev [CHR 0x00] = Inl (SocketError m) \<longrightarrow> is_alive drv = Inr (alive False))
       \<and> (write_reply dev [CHR 0x00] = Inl (EOFError m) \<longrightarrow> is_alive drv = Inr (alive False))"
  using assms by (simp add: is_alive_def)

text \<open>
  Claim C6 at a failing input: a driver opened over Telnet. \<^verbatim>\<open>is_alive\<close> raises
  NameError for \<^verbatim>\<open>telnetlib\<close>, which the module never imports, before anything is
  written; the claim's answers before \<^verbatim>\<open>open()\<close> and over SSH are the three lemmas
  above.
\<close>

theorem is_alive_telnet_open:
  "is_alive (session ''telnet'' []) = Inl (NameError ''telnetlib'')"
  by (simp add: is_alive_telnet session_def)

section \<open>Properties of the configuration retrieval\<close>

lemma get_config_keys:
  "get_config drv sent retrieve = (Inr cfg, sent') \<Longrightarrow>
     keys cfg = [PStr ''startup'', PStr ''running'', PStr ''candidate'']
     \<and> item cfg ''candidate'' = Some (PStr [])
     \<and> (retrieve \<notin> set [''startup'', ''all''] \<longrightarrow> item cfg ''startup'' = Some (PStr []))
     \<and> (retrieve \<notin> set [''running'', ''all''] \<longrightarrow> item cfg ''running'' = Some (PStr []))"
  by (auto simp: get_config_def Let_def split: if_splits prod.splits sum.splits)

text \<open>
  Claim C7. On an open session whose device answers the commands sent, \<^verbatim>\<open>get_config\<close>
  returns the dictionary with the three keys \<^verbatim>\<open>startup\<close>, \<^verbatim>\<open>running\<close>, \<^verbatim>\<open>candidate\<close>:
  for \<^verbatim>\<open>startup\<close> and for \<^verbatim>\<open>running\<close> the selected blob is the device's answer and the
  other two are empty strings; for \<^verbatim>\<open>all\<close> both blobs are the answers, the startup
  command sent first, and the candidate is the empty string. And whatever the selector
  and the device, a dictionary that \<^verbatim>\<open>get_config\<close> returns has exactly these three
  keys, an empty candidate and an empty string for each blob that was not selected.
\<close>

theorem get_config_selector:
  assumes "device drv = Some dev"
  shows "(send_reply dev sent ''show startup-config'' = Inr st \<longrightarrow>
            get_config drv sent ''startup''
              = (Inr (PDict [(PStr ''startup'', PStr st), (PStr ''running'', PStr []),
                             (PStr ''candidate'', PStr [])]),
                 sent @ [''show startup-config'']))
       \<and> (send_reply dev sent ''show running-config'' = Inr ru \<longrightarrow>
            get_config drv sent ''running''
              = (Inr (PDict [(PStr ''startup'', PStr []), (PStr ''running'', PStr ru),
                             (PStr ''candidate'', PStr [])]),
                 sent @ [''show running-config'']))
       \<and> (send_reply dev sent ''show startup-config'' = Inr st
            \<and> send_reply dev (sent @ [''show startup-config'']) ''show running-config'' = Inr ru
          \<longrightarrow> get_config drv sent ''all''
              = (Inr (PDict [(PStr ''startup'', PStr st), (PStr ''running'', PStr ru),
                             (PStr ''candidate'', PStr [])]),
                 sent @ [''show startup-config'', ''show running-config'']))
       \<and> (\<forall>retrieve cfg sent'. get_config drv sent retrieve = (Inr cfg, sent') \<longrightarrow>
             keys cfg = [PStr ''startup'', PStr ''running'', PStr ''candidate'']
             \<and> item cfg ''candidate'' = Some (PStr [])
             \<and> (retrieve \<notin> set [''startup'', ''all''] \<longrightarrow> item cfg ''startup'' = Some (PStr []))
             \<and> (retrieve \<notin> set [''running'', ''all''] \<longrightarrow> item cfg ''running'' = Some (PStr [])))"
  using assms get_config_keys[of drv sent]
  by (simp add: get_config_def send_command_single)

text \<open>Witness for C7: the three selectors on a device with a saved and a running
  configuration.\<close>

theorem get_config_selector_witness:
  "get_config (session ''ssh'' saved) [] ''running''
     = (Inr (PDict [(PStr ''startup'', PStr []), (PStr ''running'', PStr ''hostname sw1''),
                    (PStr ''candidate'', PStr [])]), [''show running-config''])
   \<and> get_config (session ''ssh'' saved) [] ''startup''
     = (Inr (PDict [(PStr ''startup'', PStr ''hostname old''), (PStr ''running'', PStr []),
                    (PStr ''candidate'', PStr [])]), [''show startup-config''])
   \<and> get_config (session ''ssh'' saved) [] ''all''
     = (Inr (PDict [(PStr ''startup'', PStr ''hostname old''),
                    (PStr ''running'', PStr ''hostname sw1''),
                    (PStr ''candidate'', PStr [])]),
        [''show startup-config'', ''show running-config''])
   \<and> keys (PDict [(PStr ''startup'', PStr []), (PStr ''running'', PStr ''hostname sw1''),
                  (PStr ''candidate'', PStr [])])
     = [PStr ''startup'', PStr ''running'', PStr ''candidate'']
   \<and> item (PDict [(PStr ''startup'', PStr []), (PStr ''running'', PStr ''hostname sw1''),
                  (PStr ''candidate'', PStr [])]) ''startup'' = Some (PStr [])"
proof -
  note c = get_config_selector[of "session ''ssh'' saved" "scripted saved" "[]"
          "''hostname old''" "''hostname sw1''"]
  have d: "device (session ''ssh'' saved) = Some (scripted saved)"
    by (simp add: session_def)
  have r: "get_config (session ''ssh'' saved) [] ''running''
     = (Inr (PDict [(PStr ''startup'', PStr []), (PStr ''running'', PStr ''hostname sw1''),
                    (PStr ''candidate'', PStr [])]), [''show running-config''])"
    using c[OF d] by (simp add: scripted_def saved_def)
  have s: "get_config (session ''ssh'' saved) [] ''startup''
     = (Inr (PDict [(PStr ''startup'', PStr ''hostname old''), (PStr ''running'', PStr []),
                    (PStr ''candidate'', PStr [])]), [''show startup-config''])"
    using c[OF d] by (simp add: scripted_def saved_def)
  have a: "get_config (session ''ssh'' saved) [] ''all''
     = (Inr (PDict [(PStr ''startup'', PStr ''hostname old''),
                    (PStr ''running'', PStr ''hostname sw1''),
                    (PStr ''candidate'', PStr [])]),
        [''show startup-config'', ''show running-config''])"
    using c[OF d] by (simp add: scripted_def saved_def)
  have k: "keys (PDict [(PStr ''startup'', PStr []), (PStr ''running'', PStr ''hostname sw1''),
                  (PStr ''candidate'', PStr [])])
     = [PStr ''startup'', PStr ''running'', PStr ''candidate'']
   \<and> item (PDict [(PStr ''startup'', PStr []), (PStr ''running'', PStr ''hostname sw1''),
                  (PStr ''candidate'', PStr [])]) ''startup'' = Some (PStr [])"
    using c[OF d] r by auto
  from r s a k show ?thesis by blast
qed

section \<open>Properties of the environment facts\<close>

lemma scan_lines_used:
  "scan_lines ls st = Inr st' \<Longrightarrow>
     (filter (contains ''alloc'') (takeWhile (\<lambda>l. \<not> cpu_line l) ls) = []
        \<longrightarrow> used_mem st' = used_mem st)
   \<and> (filter (contains ''alloc'') (takeWhile (\<lambda>l. \<not> cpu_line l) ls) \<noteq> [] \<longrightarrow>
        (\<exists>a. int_field (last (filter (contains ''alloc'')
                                 (takeWhile (\<lambda>l. \<not> cpu_line l) ls))) = Inr a
            \<and> used_mem st' = Some a))"
proof (induction ls arbitrary: st)
  case Nil
  then show ?case by simp
next
  case (Cons l ls)
  show ?case
  proof (cases "cpu_line l")
    case True
    with Cons.prems show ?thesis
      by (auto simp: cpu_line_def split: sum.splits)
  next
    case False
    from Cons.prems False obtain st1 st2 where
      s1: "(if contains ''alloc'' l
            then (case int_field l of Inl e \<Rightarrow> Inl e
                  | Inr n \<Rightarrow> Inr (st\<lparr>used_mem := Some n\<rparr>))
            else Inr st) = Inr st1"
      and s2: "(if contains ''free'' l
                then (case int_field l of Inl e \<Rightarrow> Inl e
                      | Inr n \<Rightarrow> Inr (st1\<lparr>avail_mem := Some n\<rparr>))
                else Inr st1) = Inr st2"
      and s3: "scan_lines ls st2 = Inr st'"
      by (simp add: cpu_line_def split: sum.splits)
    have u12: "used_mem st2 = used_mem st1"
      using s2 by (auto split: if_splits sum.splits)
    have u1: "(contains ''alloc'' l \<longrightarrow> (\<exists>a. int_field l = Inr a \<and> used_mem st1 = Some a))
            \<and> (\<not> contains ''alloc'' l \<longrightarrow> used_mem st1 = used_mem st)"
      using s1 by (auto split: if_splits sum.splits)
    from Cons.IH[OF s3] u12 u1 False show ?thesis by auto
  qed
qed

lemma scan_lines_avail:
  "scan_lines ls st = Inr st' \<Longrightarrow>
     (filter (contains ''free'') (takeWhile (\<lambda>l. \<not> cpu_line l) ls) = []
        \<longrightarrow> avail_mem st' = avail_mem st)
   \<and> (filter (contains ''free'') (takeWhile (\<lambda>l. \<not> cpu_line l) ls) \<noteq> [] \<longrightarrow>
        (\<exists>a. int_field (last (filter (contains ''free'')
                                 (takeWhile (\<lambda>l. \<not> cpu_line l) ls))) = Inr a
            \<and> avail_mem st' = Some a))"
proof (induction ls arbitrary: st)
  case Nil
  then show ?case by simp
next
  case (Cons l ls)
  show ?case
  proof (cases "cpu_line l")
    case True
    with Cons.prems show ?thesis
      by (auto simp: cpu_line_def split: sum.splits)
  next
    case False
    from Cons.prems False obtain st1 st2 where
      s1: "(if contains ''alloc'' l
            then (case int_field l of Inl e \<Rightarrow> Inl e
                  | Inr n \<Rightarrow> Inr (st\<lparr>used_mem := Some n\<rparr>))
            else Inr st) = Inr st1"
      and s2: "(if contains ''free'' l
                then (case int_field l of Inl e \<Rightarrow> Inl e
                      | Inr n \<Rightarrow> Inr (st1\<lparr>avail_mem := Some n\<rparr>))
                else Inr st1) = Inr st2"
      and s3: "scan_lines ls st2 = Inr st'"
      by (simp add: cpu_line_def split: sum.splits)
    have u1: "avail_mem st1 = avail_mem st"
      using s1 by (auto split: if_splits sum.splits)
    have u2: "(contains ''free'' l \<longrightarrow> (\<exists>a. int_field l = Inr a \<and> avail_mem st2 = Some a))
            \<and> (\<not> contains ''free'' l \<longrightarrow> avail_mem st2 = avail_mem st1)"
      using s2 by (auto split: if_splits sum.splits)
    from Cons.IH[OF s3] u1 u2 False show ?thesis by auto
  qed
qed

lemma scan_lines_returns:
  assumes "\<forall>l\<in>set (takeWhile (\<lambda>l. \<not> cpu_line l) ls).
              contains ''alloc'' l \<or> contains ''free'' l \<longrightarrow> (\<exists>n. int_field l = Inr n)"
    and "\<forall>l rest. dropWhile (\<lambda>l. \<not> cpu_line l) ls = l # rest \<longrightarrow> (\<exists>u. cpu_field l = Inr u)"
  shows "\<exists>st'. scan_lines ls st = Inr st'"
  using assms
proof (induction ls arbitrary: st)
  case Nil
  then show ?case by simp
next
  case (Cons l ls)
  show ?case
  proof (cases "cpu_line l")
    case True
    with Cons.prems(2) obtain u where "cpu_field l = Inr u" by auto
    with True show ?thesis by (simp add: cpu_line_def)
  next
    case False
    have a: "\<forall>x\<in>set (takeWhile (\<lambda>l. \<not> cpu_line l) ls).
              contains ''alloc'' x \<or> contains ''free'' x \<longrightarrow> (\<exists>n. int_field x = Inr n)"
      using Cons.prems(1) False by simp
    have b: "\<forall>x rest. dropWhile (\<lambda>l. \<not> cpu_line l) ls = x # rest
               \<longrightarrow> (\<exists>u. cpu_field x = Inr u)"
      using Cons.prems(2) False by simp
    have c: "contains ''alloc'' l \<or> contains ''free'' l \<longrightarrow> (\<exists>n. int_field l = Inr n)"
      using Cons.prems(1) False by simp
    show ?thesis
    proof (cases "contains ''alloc'' l \<or> contains ''free'' l")
      case True
      with c obtain n where n: "int_field l = Inr n" by auto
      show ?thesis using False n Cons.IH[OF a b] by (simp add: cpu_line_def)
    next
      case False
      with \<open>\<not> cpu_line l\<close> show ?thesis using Cons.IH[OF a b] by (simp add: cpu_line_def)
    qed
  qed
qed

lemma get_environment_returned:
  assumes "device drv = Some dev"
    and "send_reply dev sent ''show proc cpu'' = Inr outp"
    and "get_environment drv sent = (Inr env, sent')"
  shows "\<exists>a f. filter (contains ''alloc'') (scanned outp) \<noteq> []
            \<and> int_field (last (filter (contains ''alloc'') (scanned outp))) = Inr a
            \<and> filter (contains ''free'') (scanned outp) \<noteq> []
            \<and> int_field (last (filter (contains ''free'') (scanned outp))) = Inr f
            \<and> item env ''memory''
                = Some (PDict [(PStr ''used_ram'', PInt a),
                               (PStr ''available_ram'', PInt (a + f))])"
proof -
  have sc: "send_command drv sent (Single ''show proc cpu'')
              = (Inr outp, sent @ [''show proc cpu''])"
    using assms(1,2) by (rule send_command_single)
  from assms(3) sc obtain st a f u where
    st: "scan_lines (splitlines outp)
           \<lparr>usage = Float_of_int 0, used_mem = None, avail_mem = None\<rparr> = Inr st"
    and a: "used_mem st = Some a" and f: "avail_mem st = Some f"
    and env: "env = environment u a (a + f)"
    by (auto simp: get_environment_def split: sum.splits option.splits prod.splits)
  from scan_lines_used[OF st] a
  have A: "filter (contains ''alloc'') (scanned outp) \<noteq> []
     \<and> int_field (last (filter (contains ''alloc'') (scanned outp))) = Inr a"
    by (auto simp: scanned_def)
  from scan_lines_avail[OF st] f
  have F: "filter (contains ''free'') (scanned outp) \<noteq> []
     \<and> int_field (last (filter (contains ''free'') (scanned outp))) = Inr f"
    by (auto simp: scanned_def)
  from A F env show ?thesis by (simp add: environment_def)
qed

text \<open>
  Claim C8, as amended. The scan reads the lines of the CPU report up to the first line
  holding \<^verbatim>\<open>Total CPU Utilization\<close> and stops there. Whenever \<^verbatim>\<open>get_environment\<close>
  returns, one of the lines read holds \<^verbatim>\<open>alloc\<close> and one holds \<^verbatim>\<open>free\<close>;
  \<^verbatim>\<open>used_ram\<close> is the integer \<open>a\<close> in the second field of the last line read that holds
  \<^verbatim>\<open>alloc\<close>, and \<^verbatim>\<open>available_ram\<close> is \<open>a + f\<close>, with \<open>f\<close> the second field of the last
  line read that holds \<^verbatim>\<open>free\<close>. And it does return such a record when the lines read
  parse, both kinds of line are among them and the temperature command is answered.
\<close>

theorem get_environment_memory:
  assumes "device drv = Some dev"
    and "send_reply dev sent ''show proc cpu'' = Inr outp"
  shows "(\<forall>env sent'. get_environment drv sent = (Inr env, sent') \<longrightarrow>
            (\<exists>a f. filter (contains ''alloc'') (scanned outp) \<noteq> []
               \<and> int_field (last (filter (contains ''alloc'') (scanned outp))) = Inr a
               \<and> filter (contains ''free'') (scanned outp) \<noteq> []
               \<and> int_field (last (filter (contains ''free'') (scanned outp))) = Inr f
               \<and> item env ''memory''
                   = Some (PDict [(PStr ''used_ram'', PInt a),
                                  (PStr ''available_ram'', PInt (a + f))])))
       \<and> ((\<forall>l\<in>set (scanned outp).
              contains ''alloc'' l \<or> contains ''free'' l \<longrightarrow> (\<exists>n. int_field l = Inr n))
          \<and> (\<forall>l rest. dropWhile (\<lambda>l. \<not> cpu_line l) (splitlines outp) = l # rest
                \<longrightarrow> (\<exists>u. cpu_field l = Inr u))
          \<and> (\<exists>l\<in>set (scanned outp). contains ''alloc'' l)
          \<and> (\<exists>l\<in>set (scanned outp). contains ''free'' l)
          \<and> (\<exists>t. send_reply dev (sent @ [''show proc cpu'']) ''show system temperature'' = Inr t)
          \<longrightarrow> (\<exists>env a f.
                 int_field (last (filter (contains ''alloc'') (scanned outp))) = Inr a
               \<and> int_field (last (filter (contains ''free'') (scanned outp))) = Inr f
               \<and> item env ''memory''
                   = Some (PDict [(PStr ''used_ram'', PInt a),
                                  (PStr ''available_ram'', PInt (a + f))])
               \<and> get_environment drv sent
                   = (Inr env, sent @ [''show proc cpu'', ''show system temperature''])))"
proof (intro conjI allI impI)
  fix env sent'
  assume "get_environment drv sent = (Inr env, sent')"
  with assms show "\<exists>a f. filter (contains ''alloc'') (scanned outp) \<noteq> []
               \<and> int_field (last (filter (contains ''alloc'') (scanned outp))) = Inr a
               \<and> filter (contains ''free'') (scanned outp) \<noteq> []
               \<and> int_field (last (filter (contains ''free'') (scanned outp))) = Inr f
               \<and> item env ''memory''
                   = Some (PDict [(PStr ''used_ram'', PInt a),
                                  (PStr ''available_ram'', PInt (a + f))])"
    by (rule get_environment_returned)
next
  assume h: "(\<forall>l\<in>set (scanned outp).
              contains ''alloc'' l \<or> contains ''free'' l \<longrightarrow> (\<exists>n. int_field l = Inr n))
          \<and> (\<forall>l rest. dropWhile (\<lambda>l. \<not> cpu_line l) (splitlines outp) = l # rest
                \<longrightarrow> (\<exists>u. cpu_field l = Inr u))
          \<and> (\<exists>l\<in>set (scanned outp). contains ''alloc'' l)
          \<and> (\<exists>l\<in>set (scanned outp). contains ''free'' l)
          \<and> (\<exists>t. send_reply dev (sent @ [''show proc cpu'']) ''show system temperature'' = Inr t)"
  then have w1: "\<forall>l\<in>set (takeWhile (\<lambda>l. \<not> cpu_line l) (splitlines outp)).
              contains ''alloc'' l \<or> contains ''free'' l \<longrightarrow> (\<exists>n. int_field l = Inr n)"
    and w2: "\<forall>l rest. dropWhile (\<lambda>l. \<not> cpu_line l) (splitlines outp) = l # rest
               \<longrightarrow> (\<exists>u. cpu_field l = Inr u)"
    by (simp_all add: scanned_def)
  from h obtain t where
    t: "send_reply dev (sent @ [''show proc cpu'']) ''show system temperature'' = Inr t"
    by blast
  from scan_lines_returns[OF w1 w2] obtain st where
    st: "scan_lines (splitlines outp)
           \<lparr>usage = Float_of_int 0, used_mem = None, avail_mem = None\<rparr> = Inr st"
    by blast
  from h have "filter (contains ''alloc'') (scanned outp) \<noteq> []"
    by (simp add: filter_empty_conv)
  with scan_lines_used[OF st] obtain a where
    a: "int_field (last (filter (contains ''alloc'') (scanned outp))) = Inr a" "used_mem st = Some a"
    by (auto simp: scanned_def)
  from h have "filter (contains ''free'') (scanned outp) \<noteq> []"
    by (simp add: filter_empty_conv)
  with scan_lines_avail[OF st] obtain f where
    f: "int_field (last (filter (contains ''free'') (scanned outp))) = Inr f" "avail_mem st = Some f"
    by (auto simp: scanned_def)
  have "get_environment drv sent
          = (Inr (environment (usage st) a (a + f)),
             sent @ [''show proc cpu'', ''show system temperature''])"
    using send_command_single[OF assms] send_command_single[OF assms(1) t] st a f
    by (simp add: get_environment_def)
  moreover have "item (environment (usage st) a (a + f)) ''memory''
                   = Some (PDict [(PStr ''used_ram'', PInt a),
                                  (PStr ''available_ram'', PInt (a + f))])"
    by (simp add: environment_def)
  ultimately show "\<exists>env a f.
                 int_field (last (filter (contains ''alloc'') (scanned outp))) = Inr a
               \<and> int_field (last (filter (contains ''free'') (scanned outp))) = Inr f
               \<and> item env ''memory''
                   = Some (PDict [(PStr ''used_ram'', PInt a),
                                  (PStr ''available_ram'', PInt (a + f))])
               \<and> get_environment drv sent
                   = (Inr env, sent @ [''show proc cpu'', ''show system temperature''])"
    using a f by blast
qed

text \<open>Witness for C8: a report with \<^verbatim>\<open>free 500\<close> and \<^verbatim>\<open>alloc 1000\<close> before the CPU
  summary gives \<^verbatim>\<open>used_ram\<close> 1000 and \<^verbatim>\<open>available_ram\<close> 1500.\<close>

theorem get_environment_memory_witness:
  "get_environment (session ''ssh'' (env_script cpu_report)) []
     = (Inr (environment (Float_of_str ''9.75'') 1000 1500),
        [''show proc cpu'', ''show system temperature''])
   \<and> item (environment (Float_of_str ''9.75'') 1000 1500) ''memory''
     = Some (PDict [(PStr ''used_ram'', PInt 1000), (PStr ''available_ram'', PInt 1500)])
   \<and> (\<exists>env. item env ''memory''
          = Some (PDict [(PStr ''used_ram'', PInt 1000), (PStr ''available_ram'', PInt 1500)])
        \<and> get_environment (session ''ssh'' (env_script cpu_report)) []
          = (Inr env, [''show proc cpu'', ''show system temperature'']))"
proof -
  have d: "device (session ''ssh'' (env_script cpu_report))
             = Some (scripted (env_script cpu_report))"
    by (simp add: session_def)
  have o: "send_reply (scripted (env_script cpu_report)) [] ''show proc cpu'' = Inr cpu_report"
    by (simp add: scripted_def env_script_def)
  have t: "send_reply (scripted (env_script cpu_report)) ([] @ [''show proc cpu''])
             ''show system temperature'' = Inr []"
    by (simp add: scripted_def env_script_def)
  have r: "get_environment (session ''ssh'' (env_script cpu_report)) []
     = (Inr (environment (Float_of_str ''9.75'') 1000 1500),
        [''show proc cpu'', ''show system temperature''])"
    by code_simp
  have a: "int_field (last (filter (contains ''alloc'') (scanned cpu_report))) = Inr 1000"
    by code_simp
  have f: "int_field (last (filter (contains ''free'') (scanned cpu_report))) = Inr 500"
    by code_simp
  have s: "scanned cpu_report
     = [''status      bytes'', ''------ ----------'', ''  free        500'',
        '' alloc       1000'', []]"
    by code_simp
  have dw: "dropWhile (\<lambda>l. \<not> cpu_line l) (splitlines cpu_report)
     = [''Total CPU Utilization   9.26%  9.75% 9.72%'']"
    by code_simp
  have c: "cpu_field ''Total CPU Utilization   9.26%  9.75% 9.72%''
             = Inr (Float_of_str ''9.75'')"
    by code_simp
  have i: "int_field '' alloc       1000'' = Inr 1000" "int_field ''  free        500'' = Inr 500"
    by code_simp+
  have k: "contains ''alloc'' '' alloc       1000''" "contains ''free'' ''  free        500''"
    "\<not> contains ''alloc'' ''status      bytes''" "\<not> contains ''free'' ''status      bytes''"
    "\<not> contains ''alloc'' ''------ ----------''" "\<not> contains ''free'' ''------ ----------''"
    by code_simp+
  note m = get_environment_memory[OF d o]
  from m r a f
  have p1: "item (environment (Float_of_str ''9.75'') 1000 1500) ''memory''
     = Some (PDict [(PStr ''used_ram'', PInt 1000), (PStr ''available_ram'', PInt 1500)])"
    by auto
  have wf: "(\<forall>l\<in>set (scanned cpu_report).
              contains ''alloc'' l \<or> contains ''free'' l \<longrightarrow> (\<exists>n. int_field l = Inr n))
          \<and> (\<forall>l rest. dropWhile (\<lambda>l. \<not> cpu_line l) (splitlines cpu_report) = l # rest
                \<longrightarrow> (\<exists>u. cpu_field l = Inr u))
          \<and> (\<exists>l\<in>set (scanned cpu_report). contains ''alloc'' l)
          \<and> (\<exists>l\<in>set (scanned cpu_report). contains ''free'' l)
          \<and> (\<exists>t. send_reply (scripted (env_script cpu_report)) ([] @ [''show proc cpu''])
                    ''show system temperature'' = Inr t)"
    using s dw c i k t by simp
  from m wf a f
  have p2: "\<exists>env. item env ''memory''
          = Some (PDict [(PStr ''used_ram'', PInt 1000), (PStr ''available_ram'', PInt 1500)])
        \<and> get_environment (session ''ssh'' (env_script cpu_report)) []
          = (Inr env, [''show proc cpu'', ''show system temperature''])"
    by auto
  from r p1 p2 show ?thesis by blast
qed

text \<open>Counterexample to C8 as stated: the raw text holds \<^verbatim>\<open>alloc 1000\<close> and
  \<^verbatim>\<open>free 500\<close>, but after the CPU summary line, where the scan has stopped; no record
  with \<^verbatim>\<open>used_ram\<close> 1000 is returned.\<close>

theorem get_environment_memory_after_cpu_line:
  "splitlines cpu_report_cpu_first
     = [''Total CPU Utilization   9.26%  9.75% 9.72%'', '' alloc       1000'',
        ''  free        500'']
   \<and> get_environment (session ''ssh'' (env_script cpu_report_cpu_first)) []
     = (Inl (UnboundLocalError ''used_mem''), [''show proc cpu''])"
  by code_simp

text \<open>
  Claim C10, as amended. Let every line read that holds \<^verbatim>\<open>alloc\<close> or \<^verbatim>\<open>free\<close> have
  an integer second field, and let the CPU summary line, if there is one, have a float
  in its fifth field (otherwise the IndexError or ValueError of that line is raised
  first). Then \<^verbatim>\<open>get_environment\<close> raises UnboundLocalError for \<^verbatim>\<open>used_mem\<close> when no
  line before the CPU summary holds \<^verbatim>\<open>alloc\<close>, and for \<^verbatim>\<open>avail_mem\<close> when one holds
  \<^verbatim>\<open>alloc\<close> and none holds \<^verbatim>\<open>free\<close>. And whenever it returns, a line holding
  \<^verbatim>\<open>alloc\<close> and a line holding \<^verbatim>\<open>free\<close> come before the CPU summary.
\<close>

theorem get_environment_unbound:
  assumes "device drv = Some dev"
    and "send_reply dev sent ''show proc cpu'' = Inr outp"
  shows "((\<forall>l\<in>set (scanned outp).
              contains ''alloc'' l \<or> contains ''free'' l \<longrightarrow> (\<exists>n. int_field l = Inr n))
          \<and> (\<forall>l rest. dropWhile (\<lambda>l. \<not> cpu_line l) (splitlines outp) = l # rest
                \<longrightarrow> (\<exists>u. cpu_field l = Inr u))
          \<longrightarrow> ((\<forall>l\<in>set (scanned outp). \<not> contains ''alloc'' l) \<longrightarrow>
                  get_environment drv sent
                    = (Inl (UnboundLocalError ''used_mem''), sent @ [''show proc cpu'']))
            \<and> ((\<exists>l\<in>set (scanned outp). contains ''alloc'' l)
                  \<and> (\<forall>l\<in>set (scanned outp). \<not> contains ''free'' l) \<longrightarrow>
                  get_environment drv sent
                    = (Inl (UnboundLocalError ''avail_mem''), sent @ [''show proc cpu''])))
       \<and> ((\<exists>env sent'. get_environment drv sent = (Inr env, sent')) \<longrightarrow>
            (\<exists>l\<in>set (scanned outp). contains ''alloc'' l)
            \<and> (\<exists>l\<in>set (scanned outp). contains ''free'' l))"
proof (intro conjI impI)
  have sc: "send_command drv sent (Single ''show proc cpu'')
              = (Inr outp, sent @ [''show proc cpu''])"
    using assms(1,2) by (rule send_command_single)
  {
    assume wf: "(\<forall>l\<in>set (scanned outp).
              contains ''alloc'' l \<or> contains ''free'' l \<longrightarrow> (\<exists>n. int_field l = Inr n))
          \<and> (\<forall>l rest. dropWhile (\<lambda>l. \<not> cpu_line l) (splitlines outp) = l # rest
                \<longrightarrow> (\<exists>u. cpu_field l = Inr u))"
    then have w1: "\<forall>l\<in>set (takeWhile (\<lambda>l. \<not> cpu_line l) (splitlines outp)).
              contains ''alloc'' l \<or> contains ''free'' l \<longrightarrow> (\<exists>n. int_field l = Inr n)"
      and w2: "\<forall>l rest. dropWhile (\<lambda>l. \<not> cpu_line l) (splitlines outp) = l # rest
                 \<longrightarrow> (\<exists>u. cpu_field l = Inr u)"
      by (simp_all add: scanned_def)
    from scan_lines_returns[OF w1 w2] obtain st where
      st: "scan_lines (splitlines outp)
             \<lparr>usage = Float_of_int 0, used_mem = None, avail_mem = None\<rparr> = Inr st"
      by blast
    {
      assume "\<forall>l\<in>set (scanned outp). \<not> contains ''alloc'' l"
      then have "filter (contains ''alloc'') (scanned outp) = []"
        by (simp add: filter_empty_conv)
      with scan_lines_used[OF st] have "used_mem st = None" by (simp add: scanned_def)
      with sc st show "get_environment drv sent
          = (Inl (UnboundLocalError ''used_mem''), sent @ [''show proc cpu''])"
        by (simp add: get_environment_def)
    }
    {
      assume h: "(\<exists>l\<in>set (scanned outp). contains ''alloc'' l)
                   \<and> (\<forall>l\<in>set (scanned outp). \<not> contains ''free'' l)"
      then have "filter (contains ''free'') (scanned outp) = []"
        by (simp add: filter_empty_conv)
      with scan_lines_avail[OF st] have f: "avail_mem st = None" by (simp add: scanned_def)
      from h have "filter (contains ''alloc'') (scanned outp) \<noteq> []"
        by (simp add: filter_empty_conv)
      with scan_lines_used[OF st] obtain a where "used_mem st = Some a"
        by (auto simp: scanned_def)
      with f sc st show "get_environment drv sent
          = (Inl (UnboundLocalError ''avail_mem''), sent @ [''show proc cpu''])"
        by (simp add: get_environment_def)
    }
  }
  {
    assume "\<exists>env sent'. get_environment drv sent = (Inr env, sent')"
    then obtain env sent' where r: "get_environment drv sent = (Inr env, sent')" by blast
    from get_environment_returned[OF assms r]
    show "\<exists>l\<in>set (scanned outp). contains ''alloc'' l"
      "\<exists>l\<in>set (scanned outp). contains ''free'' l"
      by (auto simp: filter_empty_conv)
  }
qed

text \<open>Witness for C10: the CPU summary first (\<^verbatim>\<open>used_mem\<close> unbound), an \<^verbatim>\<open>alloc\<close>
  line but no \<^verbatim>\<open>free\<close> line (\<^verbatim>\<open>avail_mem\<close> unbound), and a report that returns.\<close>

theorem get_environment_unbound_witness:
  "get_environment (session ''ssh'' (env_script cpu_report_cpu_first)) []
     = (Inl (UnboundLocalError ''used_mem''), [''show proc cpu''])
   \<and> get_environment (session ''ssh'' (env_script cpu_report_no_free)) []
     = (Inl (UnboundLocalError ''avail_mem''), [''show proc cpu''])
   \<and> get_environment (session ''ssh'' (env_script cpu_report)) []
     = (Inr (environment (Float_of_str ''9.75'') 1000 1500),
        [''show proc cpu'', ''show system temperature''])
   \<and> (\<exists>l\<in>set (scanned cpu_report). contains ''alloc'' l)
   \<and> (\<exists>l\<in>set (scanned cpu_report). contains ''free'' l)"
proof -
  have d: "\<And>r. device (session ''ssh'' (env_script r)) = Some (scripted (env_script r))"
    by (simp add: session_def)
  have o: "\<And>r. send_reply (scripted (env_script r)) [] ''show proc cpu'' = Inr r"
    by (simp add: scripted_def env_script_def)
  have s1: "scanned cpu_report_cpu_first = []" by code_simp
  have d1: "dropWhile (\<lambda>l. \<not> cpu_line l) (splitlines cpu_report_cpu_first)
     = [''Total CPU Utilization   9.26%  9.75% 9.72%'', '' alloc       1000'',
        ''  free        500'']"
    by code_simp
  have s2: "scanned cpu_report_no_free = ['' alloc       1000'']" by code_simp
  have d2: "dropWhile (\<lambda>l. \<not> cpu_line l) (splitlines cpu_report_no_free)
     = [''Total CPU Utilization   9.26%  9.75% 9.72%'']"
    by code_simp
  have c: "cpu_field ''Total CPU Utilization   9.26%  9.75% 9.72%''
             = Inr (Float_of_str ''9.75'')"
    by code_simp
  have i: "int_field '' alloc       1000'' = Inr 1000" by code_simp
  have k: "contains ''alloc'' '' alloc       1000''"
    "\<not> contains ''free'' '' alloc       1000''"
    by code_simp+
  have r: "get_environment (session ''ssh'' (env_script cpu_report)) []
     = (Inr (environment (Float_of_str ''9.75'') 1000 1500),
        [''show proc cpu'', ''show system temperature''])"
    by code_simp
  from get_environment_unbound[OF d o, of cpu_report_cpu_first] s1 d1 c
  have a: "get_environment (session ''ssh'' (env_script cpu_report_cpu_first)) []
     = (Inl (UnboundLocalError ''used_mem''), [''show proc cpu''])"
    by simp
  from get_environment_unbound[OF d o, of cpu_report_no_free] s2 d2 c i k
  have b: "get_environment (session ''ssh'' (env_script cpu_report_no_free)) []
     = (Inl (UnboundLocalError ''avail_mem''), [''show proc cpu''])"
    by simp
  from get_environment_unbound[OF d o, of cpu_report] r
  have e: "(\<exists>l\<in>set (scanned cpu_report). contains ''alloc'' l)
   \<and> (\<exists>l\<in>set (scanned cpu_report). contains ''free'' l)"
    by blast
  from a b r e show ?thesis by blast
qed

text \<open>Counterexample to C10 as stated: the report is the CPU summary line without its
  percentages, so no \<^verbatim>\<open>alloc\<close> or \<^verbatim>\<open>free\<close> line comes before it; the method raises
  IndexError while reading that line, not UnboundLocalError.\<close>

theorem get_environment_malformed_cpu_line:
  "get_environment (session ''ssh'' (env_script ''Total CPU Utilization'')) []
     = (Inl (IndexError ''list index out of range''), [''show proc cpu''])"
  by code_simp

section \<open>Properties of MAC and ARP rows\<close>

text \<open>
  Claim C2, as amended. For a row of four fields that \<^verbatim>\<open>_process_mac_fields\<close> turns
  into an entry: \<^verbatim>\<open>static\<close> is true exactly when the lower-cased type tag is
  \<^verbatim>\<open>management\<close> or \<^verbatim>\<open>static\<close>; \<^verbatim>\<open>active\<close> is true exactly when the lower-cased type
  tag is \<^verbatim>\<open>dynamic\<close> (the comparison is case-insensitive here too); for every other
  tag both are false; \<^verbatim>\<open>moves\<close> is -1 and \<^verbatim>\<open>last_move\<close> is -1.0.
\<close>

theorem mac_row_flags:
  assumes "py_split i = [vlan, mac, mac_type, interface]"
    and "process_mac_row nb i = Inr e"
  shows "item e ''static''
           = Some (PBool (lower mac_type = ''management'' \<or> lower mac_type = ''static''))
       \<and> item e ''active'' = Some (PBool (lower mac_type = ''dynamic''))
       \<and> (lower mac_type \<notin> set [''management'', ''static'', ''dynamic''] \<longrightarrow>
            item e ''static'' = Some (PBool False) \<and> item e ''active'' = Some (PBool False))
       \<and> item e ''moves'' = Some (PInt (- 1))
       \<and> item e ''last_move'' = Some (PFloat (Float_of_int (- 1)))"
  using assms
  by (auto simp: process_mac_row_def process_mac_fields_def split: sum.splits)

text \<open>Witness for C2: a \<^verbatim>\<open>Management\<close> row is static and not active.\<close>

theorem mac_row_flags_witness:
  "process_mac_row plain_base ''1        F48E.3841.9628        Management  Vl1''
     = Inr (mac_entry ''F48E.3841.9628'' ''Vl1'' 1 True False)
   \<and> item (mac_entry ''F48E.3841.9628'' ''Vl1'' 1 True False) ''static'' = Some (PBool True)
   \<and> item (mac_entry ''F48E.3841.9628'' ''Vl1'' 1 True False) ''active'' = Some (PBool False)
   \<and> item (mac_entry ''F48E.3841.9628'' ''Vl1'' 1 True False) ''moves'' = Some (PInt (- 1))
   \<and> item (mac_entry ''F48E.3841.9628'' ''Vl1'' 1 True False) ''last_move''
     = Some (PFloat (Float_of_int (- 1)))"
proof -
  have s: "py_split ''1        F48E.3841.9628        Management  Vl1''
             = [''1'', ''F48E.3841.9628'', ''Management'', ''Vl1'']"
    by code_simp
  have r: "process_mac_row plain_base ''1        F48E.3841.9628        Management  Vl1''
     = Inr (mac_entry ''F48E.3841.9628'' ''Vl1'' 1 True False)"
    by code_simp
  have t: "lower ''Management'' = ''management''" by code_simp
  from mac_row_flags[OF s r] r t show ?thesis by simp
qed

text \<open>Counterexample to C2 as stated: the type tag \<^verbatim>\<open>Dynamic\<close>, as the device prints
  it, is not exactly \<^verbatim>\<open>dynamic\<close>, and the entry is active.\<close>

theorem mac_row_dynamic_capitalised:
  "process_mac_row plain_base ''1        0025.90C2.88ED        Dynamic     Gi1/0/48''
     = Inr (mac_entry ''0025.90C2.88ED'' ''Gi1/0/48'' 1 False True)
   \<and> item (mac_entry ''0025.90C2.88ED'' ''Gi1/0/48'' 1 False True) ''active''
     = Some (PBool True)
   \<and> ''Dynamic'' \<noteq> ''dynamic''"
  by code_simp



section \<open>Properties of the LLDP neighbour detail\<close>

lemma lldp_detail_interface_given:
  "interface \<noteq> [] \<Longrightarrow> get_lldp_neighbor_detail drv sent interface
     = (Inl (NameError ''_get_lldp_neighbor_detail_iface''), sent)"
  by (simp add: get_lldp_neighbor_detail_def global_name_def module_globals_def)

lemma lldp_detail_iface_raises:
  "\<exists>e. fst (get_lldp_neighbor_detail_iface drv sent interface) = Inl e"
  by (auto simp: get_lldp_neighbor_detail_iface_def Let_def global_name_def
        module_globals_def split: prod.splits sum.splits option.splits)

text \<open>
  Claim C9 at a failing input: the interface \<^verbatim>\<open>Gi1/0/1\<close> on an open session. No
  record is returned and no command is sent: the call raises NameError for the bare
  name \<^verbatim>\<open>_get_lldp_neighbor_detail_iface\<close>. The two lemmas above say that this holds
  for every interface given, and that the method meant to be called raises as well,
  whatever the device answers.
\<close>

theorem lldp_detail_for_interface:
  "get_lldp_neighbor_detail (session ''ssh'' saved) [] ''Gi1/0/1''
     = (Inl (NameError ''_get_lldp_neighbor_detail_iface''), [])"
  by (simp add: lldp_detail_interface_given)

section \<open>Properties of the MAC table\<close>
































end
